theory Spec2Isabelle
  imports Complex_Main
begin

section \<open>JavaScript values and strings\<close>

text \<open>
  Strings are lists of ASCII characters. Numbers are exact rationals: the bounds the
  code compares with (0 and 1000000) are exactly representable, so a comparison of a
  finite double with them is the comparison of its value. A call that throws in
  JavaScript returns \<open>Inl\<close> of the error.
\<close>

datatype js_error = TypeError | MongoError

datatype js_value = JUndefined | JNull | JBool bool | JNum rat | JStr string

definition code_of :: "char \<Rightarrow> nat" where
  "code_of c = of_char c"

definition is_digit :: "char \<Rightarrow> bool" where
  "is_digit c = (48 \<le> code_of c \<and> code_of c \<le> 57)"

definition is_upper :: "char \<Rightarrow> bool" where
  "is_upper c = (65 \<le> code_of c \<and> code_of c \<le> 90)"

definition is_lower :: "char \<Rightarrow> bool" where
  "is_lower c = (97 \<le> code_of c \<and> code_of c \<le> 122)"

text \<open>The regular expression class \<open>\s\<close> and the characters \<open>trim\<close> strips, within ASCII:
  tab, line feed, vertical tab, form feed, carriage return and space.\<close>

definition is_space :: "char \<Rightarrow> bool" where
  "is_space c = (code_of c \<in> set [9, 10, 11, 12, 13, 32])"

definition upper_char :: "char \<Rightarrow> char" where
  "upper_char c = (if is_lower c then char_of (code_of c - 32) else c)"

definition lower_char :: "char \<Rightarrow> char" where
  "lower_char c = (if is_upper c then char_of (code_of c + 32) else c)"

definition toUpperCase :: "string \<Rightarrow> string" where
  "toUpperCase s = map upper_char s"

definition toLowerCase :: "string \<Rightarrow> string" where
  "toLowerCase s = map lower_char s"

definition trim :: "string \<Rightarrow> string" where
  "trim s = rev (dropWhile is_space (rev (dropWhile is_space s)))"

section \<open>Validation utilities (utils/validation.js)\<close>

text \<open>\<^verbatim>\<open>/[^a-zA-Z0-9\s\-']/g\<close>: the characters \<open>sanitizeString\<close> keeps.\<close>

definition allowed_char :: "char \<Rightarrow> bool" where
  "allowed_char c =
     (is_lower c \<or> is_upper c \<or> is_digit c \<or> is_space c \<or> c = CHR ''-'' \<or> c = CHR 0x27)"

definition sanitize_text :: "string \<Rightarrow> string" where
  "sanitize_text str = filter allowed_char (trim str)"

fun sanitizeString :: "js_value \<Rightarrow> js_value" where
  "sanitizeString (JStr str) = JStr (sanitize_text str)"
| "sanitizeString v = v"

definition validateRoofSize :: "rat \<Rightarrow> bool" where
  "validateRoofSize sz = (sz > 0 \<and> sz \<le> 1000000)"

definition validStateCodes :: "string list" where
  "validStateCodes =
     [''AL'', ''AK'', ''AZ'', ''AR'', ''CA'', ''CO'', ''CT'', ''DE'', ''FL'', ''GA'',
      ''HI'', ''ID'', ''IL'', ''IN'', ''IA'', ''KS'', ''KY'', ''LA'', ''ME'', ''MD'',
      ''MA'', ''MI'', ''MN'', ''MS'', ''MO'', ''MT'', ''NE'', ''NV'', ''NH'', ''NJ'',
      ''NM'', ''NY'', ''NC'', ''ND'', ''OH'', ''OK'', ''OR'', ''PA'', ''RI'', ''SC'',
      ''SD'', ''TN'', ''TX'', ''UT'', ''VT'', ''VA'', ''WA'', ''WV'', ''WI'', ''WY'']"

text \<open>\<^verbatim>\<open>validStateCodes.includes(stateCode.toUpperCase())\<close>: the method call throws a
  TypeError on \<open>null\<close> and \<open>undefined\<close> (no properties) and on a number or a boolean
  (no such method).\<close>

fun validateStateCode :: "js_value \<Rightarrow> js_error + bool" where
  "validateStateCode (JStr stateCode) = Inr (toUpperCase stateCode \<in> set validStateCodes)"
| "validateStateCode v = Inl TypeError"

definition validTypes :: "string list" where
  "validTypes = [''Metal'', ''TPO'', ''Foam'', ''Other'']"

fun validateRoofType :: "js_value \<Rightarrow> bool" where
  "validateRoofType (JStr t) = (t \<in> set validTypes)"
| "validateRoofType v = False"

text \<open>\<^verbatim>\<open>isValidDateFormat\<close> guards its argument's type before it tests
  \<^verbatim>\<open>/^\d{4}-\d{2}-\d{2}$/\<close>.\<close>

definition date_format :: "string \<Rightarrow> bool" where
  "date_format s =
     (length s = 10 \<and> list_all is_digit (take 4 s) \<and> s ! 4 = CHR ''-'' \<and>
      list_all is_digit (take 2 (drop 5 s)) \<and> s ! 7 = CHR ''-'' \<and>
      list_all is_digit (drop 8 s))"

fun isValidDateFormat :: "js_value \<Rightarrow> bool" where
  "isValidDateFormat (JStr dateString) = date_format dateString"
| "isValidDateFormat v = False"

text \<open>\<^verbatim>\<open>validateDate\<close> reads the clock; the reading and the date two calendar years
  after it are its first two arguments here.\<close>

definition validateDate :: "int \<Rightarrow> int \<Rightarrow> int \<Rightarrow> bool" where
  "validateDate now twoYearsFromNow date = (date \<ge> now \<and> date \<le> twoYearsFromNow)"

section \<open>The validators of validator.js that the controller's chains call\<close>

definition strip_sign :: "string \<Rightarrow> bool \<times> string" where
  "strip_sign s =
     (case s of
        [] \<Rightarrow> (False, [])
      | c # r \<Rightarrow> if c = CHR ''-'' then (True, r) else if c = CHR ''+'' then (False, r) else (False, s))"

text \<open>\<^verbatim>\<open>isNumeric\<close>: \<^verbatim>\<open>/^[+-]?([0-9]*[.])?[0-9]+$/\<close>.\<close>

definition isNumeric :: "string \<Rightarrow> bool" where
  "isNumeric s =
     (let r = snd (strip_sign s); ds = takeWhile is_digit r in
      case dropWhile is_digit r of
        [] \<Rightarrow> ds \<noteq> []
      | c # fs \<Rightarrow> c = CHR ''.'' \<and> fs \<noteq> [] \<and> list_all is_digit fs)"

definition digits_value :: "string \<Rightarrow> int" where
  "digits_value ds = foldl (\<lambda>n c. 10 * n + (int (code_of c) - 48)) 0 ds"

text \<open>\<^verbatim>\<open>isFloat\<close> matches
  \<^verbatim>\<open>/^(?:[-+])?(?:[0-9]+)?(?:\.[0-9]*)?(?:[eE][\+\-]?(?:[0-9]+))?$/\<close>, reads the value with
  \<open>parseFloat\<close> and compares it with the bounds its options give. \<open>float_parts\<close> splits
  a matching string into sign, integer digits, fraction digits and exponent.\<close>

record float_parts =
  negative :: bool
  int_digits :: string
  frac_digits :: string
  exponent :: int

definition exponent_part :: "string \<Rightarrow> int option" where
  "exponent_part s =
     (case s of
        [] \<Rightarrow> Some 0
      | c # r \<Rightarrow>
          if c = CHR ''e'' \<or> c = CHR ''E'' then
            (let (neg, ds) = strip_sign r in
             if ds \<noteq> [] \<and> list_all is_digit ds
             then Some (if neg then - digits_value ds else digits_value ds)
             else None)
          else None)"

definition split_float :: "string \<Rightarrow> float_parts option" where
  "split_float s =
     (let (neg, r) = strip_sign s;
          ids = takeWhile is_digit r;
          r1 = dropWhile is_digit r;
          has_dot = (r1 \<noteq> [] \<and> hd r1 = CHR ''.'');
          fds = (if has_dot then takeWhile is_digit (tl r1) else []);
          r2 = (if has_dot then dropWhile is_digit (tl r1) else r1)
      in case exponent_part r2 of
           None \<Rightarrow> None
         | Some e \<Rightarrow>
             Some \<lparr>negative = neg, int_digits = ids, frac_digits = fds, exponent = e\<rparr>)"

text \<open>\<open>parseFloat\<close> on a string the expression matches: \<open>NaN\<close> (here \<open>None\<close>) when it
  has no digit before the exponent.\<close>

definition parseFloat :: "string \<Rightarrow> rat option" where
  "parseFloat s =
     (case split_float s of
        None \<Rightarrow> None
      | Some p \<Rightarrow>
          if int_digits p = [] \<and> frac_digits p = [] then None
          else
            (let m = of_int (digits_value (int_digits p)) +
                     of_int (digits_value (frac_digits p)) / 10 ^ length (frac_digits p);
                 v = (if exponent p \<ge> 0 then m * 10 ^ nat (exponent p)
                      else m / 10 ^ nat (- exponent p))
             in Some (if negative p then - v else v)))"

record float_options =
  opt_min :: "rat option"
  opt_max :: "rat option"
  opt_lt :: "rat option"
  opt_gt :: "rat option"

definition bound_ok :: "rat option \<Rightarrow> (rat \<Rightarrow> bool) \<Rightarrow> bool" where
  "bound_ok b p = (case b of None \<Rightarrow> True | Some x \<Rightarrow> p x)"

definition isFloat :: "float_options \<Rightarrow> string \<Rightarrow> bool" where
  "isFloat options str =
     (if str = [] \<or> str = ''.'' \<or> str = '','' \<or> str = ''-'' \<or> str = ''+'' then False
      else split_float str \<noteq> None \<and>
        (case parseFloat str of
           None \<Rightarrow> opt_min options = None \<and> opt_max options = None \<and>
                   opt_lt options = None \<and> opt_gt options = None
         | Some v \<Rightarrow>
             bound_ok (opt_min options) (\<lambda>b. v \<ge> b) \<and> bound_ok (opt_max options) (\<lambda>b. v \<le> b) \<and>
             bound_ok (opt_lt options) (\<lambda>b. v < b) \<and> bound_ok (opt_gt options) (\<lambda>b. v > b)))"

text \<open>The options of the controller's roof size chain: \<^verbatim>\<open>isFloat({ gt: 0, lt: 1000000 })\<close>.\<close>

definition roofSize_options :: float_options where
  "roofSize_options = \<lparr>opt_min = None, opt_max = None, opt_lt = Some 1000000, opt_gt = Some 0\<rparr>"

section \<open>Stored quotes and the store's queries (models/Quote.js)\<close>

text \<open>Dates are instants in milliseconds since the epoch. The store is the list of its
  documents in insertion order.\<close>

record quote =
  quote_id :: nat
  contractorName :: string
  company :: string
  roofSize :: rat
  roofType :: string
  projectCity :: string
  projectState :: string
  projectDate :: int
  createdAt :: int
  updatedAt :: int

text \<open>A filter object: a key that is present constrains its field by equality.\<close>

record filter_query =
  q_projectState :: "string option"
  q_roofType :: "string option"

definition matches_query :: "filter_query \<Rightarrow> quote \<Rightarrow> bool" where
  "matches_query query q =
     ((case q_projectState query of None \<Rightarrow> True | Some s \<Rightarrow> projectState q = s) \<and>
      (case q_roofType query of None \<Rightarrow> True | Some t \<Rightarrow> roofType q = t))"

definition find_quotes :: "quote list \<Rightarrow> filter_query \<Rightarrow> quote list" where
  "find_quotes store query = filter (matches_query query) store"

definition countDocuments :: "quote list \<Rightarrow> filter_query \<Rightarrow> int" where
  "countDocuments store query = int (length (find_quotes store query))"

text \<open>\<^verbatim>\<open>sort({ createdAt: -1 })\<close>: newest first; documents created at the same instant keep
  their stored order.\<close>

definition sort_createdAt_desc :: "quote list \<Rightarrow> quote list" where
  "sort_createdAt_desc qs = sort_key (\<lambda>q. - createdAt q) qs"

text \<open>The store's \<open>skip\<close> and \<open>limit\<close>: a negative skip is an error of the store, limit 0
  is no limit, and a negative limit counts as its absolute value.\<close>

definition skip_limit :: "int \<Rightarrow> int \<Rightarrow> 'a list \<Rightarrow> 'a list option" where
  "skip_limit skp lmt xs =
     (if skp < 0 then None
      else Some (if lmt = 0 then drop (nat skp) xs else take (nat \<bar>lmt\<bar>) (drop (nat skp) xs)))"

section \<open>Retrieval (controllers/quoteController.js, getQuotes)\<close>

text \<open>\<open>req.query\<close>: a parameter is absent (\<open>None\<close>) or a string; \<open>page\<close> and \<open>limit\<close> are
  given by the integer \<open>parseInt\<close> reads from them (a parameter it cannot read is outside
  the model).\<close>

record quotes_request =
  rq_state :: "string option"
  rq_roofType :: "string option"
  rq_page :: "int option"
  rq_limit :: "int option"

text \<open>\<^verbatim>\<open>if (state) query.projectState = state.toUpperCase(); if (roofType) query.roofType = roofType;\<close>
  An absent parameter and the empty string are both falsy.\<close>

definition build_query :: "string option \<Rightarrow> string option \<Rightarrow> filter_query" where
  "build_query st rt =
     \<lparr>q_projectState =
        (case st of None \<Rightarrow> None | Some s \<Rightarrow> if s = [] then None else Some (toUpperCase s)),
      q_roofType =
        (case rt of None \<Rightarrow> None | Some t \<Rightarrow> if t = [] then None else Some t)\<rparr>"

definition page_of :: "quotes_request \<Rightarrow> int" where
  "page_of rq = (case rq_page rq of None \<Rightarrow> 1 | Some p \<Rightarrow> p)"

definition limit_of :: "quotes_request \<Rightarrow> int" where
  "limit_of rq = (case rq_limit rq of None \<Rightarrow> 10 | Some l \<Rightarrow> l)"

text \<open>\<open>totalPages\<close> is \<open>None\<close> where \<^verbatim>\<open>Math.ceil(total / 0)\<close> is not finite (JSON \<open>null\<close>);
  elsewhere the quotient is taken exactly.\<close>

record pagination =
  currentPage :: int
  totalPages :: "int option"
  totalQuotes :: int
  hasMore :: bool

record listing =
  quotes :: "quote list"
  pagination :: pagination

definition getQuotes :: "quote list \<Rightarrow> quotes_request \<Rightarrow> js_error + listing" where
  "getQuotes store rq =
     (let query = build_query (rq_state rq) (rq_roofType rq);
          page = page_of rq;
          lmt = limit_of rq;
          n = countDocuments store query
      in case skip_limit ((page - 1) * lmt) lmt (sort_createdAt_desc (find_quotes store query)) of
           None \<Rightarrow> Inl MongoError
         | Some found \<Rightarrow>
             Inr \<lparr>quotes = found,
                  pagination =
                    \<lparr>currentPage = page,
                     totalPages =
                       (if lmt = 0 then None else Some \<lceil>(of_int n :: rat) / of_int lmt\<rceil>),
                     totalQuotes = n,
                     hasMore = (page * lmt < n)\<rparr>\<rparr>)"

section \<open>CSV export (exportQuotesCSV) and the CSV utility (utils/csvGenerator.js)\<close>

text \<open>The platform's renderings of a number (\<open>String(n)\<close>, as \<open>join\<close> applies it) and of a
  date (\<open>toLocaleDateString\<close>) are parameters.\<close>

record render =
  numberToString :: "rat \<Rightarrow> string"
  toLocaleDateString :: "int \<Rightarrow> string"

fun join :: "string \<Rightarrow> string list \<Rightarrow> string" where
  "join sep [] = []"
| "join sep [x] = x"
| "join sep (x # y # ys) = x @ sep @ join sep (y # ys)"

definition csv_header :: "string list" where
  "csv_header =
     [''Contractor Name'', ''Company'', ''Roof Size (sq ft)'', ''Roof Type'', ''Project City'',
      ''Project State'', ''Project Date'', ''Submission Date'']"

definition csv_row :: "render \<Rightarrow> quote \<Rightarrow> string list" where
  "csv_row rn q =
     [contractorName q, company q, numberToString rn (roofSize q), roofType q, projectCity q,
      projectState q, toLocaleDateString rn (projectDate q), toLocaleDateString rn (createdAt q)]"

text \<open>\<^verbatim>\<open>Quote.find(query).sort({ createdAt: -1 })\<close>: the documents the export writes.\<close>

definition export_quotes :: "quote list \<Rightarrow> string option \<Rightarrow> string option \<Rightarrow> quote list" where
  "export_quotes store st rt =
     sort_createdAt_desc (find_quotes store (build_query st rt))"

definition csvRows :: "render \<Rightarrow> quote list \<Rightarrow> string option \<Rightarrow> string option \<Rightarrow> string list list" where
  "csvRows rn store st rt = csv_header # map (csv_row rn) (export_quotes store st rt)"

definition exportQuotesCSV :: "render \<Rightarrow> quote list \<Rightarrow> string option \<Rightarrow> string option \<Rightarrow> string" where
  "exportQuotesCSV rn store st rt =
     join ''\<newline>'' (map (join '','') (csvRows rn store st rt))"

text \<open>\<open>formatField\<close> of utils/csvGenerator.js, on a string: the controller does not call it.\<close>

definition formatField :: "string \<Rightarrow> string" where
  "formatField stringField =
     (if CHR '','' \<in> set stringField \<or> CHR ''\<newline>'' \<in> set stringField \<or> CHR 0x22 \<in> set stringField
      then [CHR 0x22] @ concat (map (\<lambda>c. if c = CHR 0x22 then [c, c] else [c]) stringField) @ [CHR 0x22]
      else stringField)"

section \<open>Submission (validateQuote, validateRequest, createQuote)\<close>

text \<open>\<open>req.body\<close> gives each field by the string express-validator validates (the
  \<open>toString\<close> of the value: a JSON number 2500 and the string \<open>2500\<close> are both \<open>''2500''\<close>,
  an absent field is the empty string). A sanitizer writes its result back.\<close>

type_synonym body = "string \<Rightarrow> string"

text \<open>\<open>isDate\<close>, the \<open>Date\<close> constructor (\<open>None\<close> is an invalid date), \<open>setFullYear\<close> and
  the clock belong to the platform: the clock is read once by the chain's custom
  validator and once when the document is saved.\<close>

record platform =
  isDate :: "string \<Rightarrow> bool"
  parseDate :: "string \<Rightarrow> int option"
  addTwoYears :: "int \<Rightarrow> int"
  clock_validate :: int
  clock_save :: int

text \<open>\<open>escape\<close> replaces \<open>&\<close> first, so it maps each character on its own.\<close>

definition escape_char :: "char \<Rightarrow> string" where
  "escape_char c =
     (if c = CHR ''&'' then ''&amp;''
      else if c = CHR 0x22 then ''&quot;''
      else if c = CHR 0x27 then ''&#x27;''
      else if c = CHR ''<'' then ''&lt;''
      else if c = CHR ''>'' then ''&gt;''
      else if c = CHR ''/'' then ''&#x2F;''
      else if c = CHR 0x5C then ''&#x5C;''
      else if c = CHR 0x60 then ''&#96;''
      else [c])"

definition escape :: "string \<Rightarrow> string" where
  "escape s = concat (map escape_char s)"

definition isLength :: "nat \<Rightarrow> nat \<Rightarrow> string \<Rightarrow> bool" where
  "isLength lo hi s = (lo \<le> length s \<and> length s \<le> hi)"

text \<open>\<^verbatim>\<open>/^[a-zA-Z\s-']+$/\<close>\<close>

definition name_pattern :: "string \<Rightarrow> bool" where
  "name_pattern s =
     (s \<noteq> [] \<and> list_all (\<lambda>c. is_lower c \<or> is_upper c \<or> is_space c \<or> c = CHR ''-'' \<or> c = CHR 0x27) s)"

definition isUppercase :: "string \<Rightarrow> bool" where
  "isUppercase s = (s = toUpperCase s)"

text \<open>\<^verbatim>\<open>/^[A-Z]{2}$/\<close>\<close>

definition state_pattern :: "string \<Rightarrow> bool" where
  "state_pattern s = (length s = 2 \<and> list_all is_upper s)"

text \<open>A chain is a list of sanitizers and validators, all run in order (no \<open>bail\<close>). A
  validator gives \<open>None\<close> when it passes and its message when it fails. An error keeps
  the field's name (\<open>param\<close>) and the message (\<open>msg\<close>); the offending value it also carries is
  left out.\<close>

datatype step = Sanitizer "string \<Rightarrow> string" | Validator "string \<Rightarrow> string option"

record validation_error =
  param :: string
  msg :: string

definition check :: "(string \<Rightarrow> bool) \<Rightarrow> string \<Rightarrow> string \<Rightarrow> string option" where
  "check p m v = (if p v then None else Some m)"

definition invalid_value :: string where
  "invalid_value = ''Invalid value''"

fun run_steps :: "string \<Rightarrow> step list \<Rightarrow> string \<Rightarrow> validation_error list \<times> string" where
  "run_steps f [] v = ([], v)"
| "run_steps f (Sanitizer s # steps) v = run_steps f steps (s v)"
| "run_steps f (Validator p # steps) v =
     (let (es, v') = run_steps f steps v in
      ((case p v of None \<Rightarrow> [] | Some m \<Rightarrow> [\<lparr>param = f, msg = m\<rparr>]) @ es, v'))"

text \<open>The custom validator of \<open>projectDate\<close>: both comparisons are false on an invalid date.\<close>

definition projectDate_custom :: "platform \<Rightarrow> string \<Rightarrow> string option" where
  "projectDate_custom pf v =
     (case parseDate pf v of
        None \<Rightarrow> None
      | Some date \<Rightarrow>
          if date < clock_validate pf then Some ''Project date cannot be in the past''
          else if date > addTwoYears pf (clock_validate pf)
          then Some ''Project date cannot be more than 2 years in the future''
          else None)"

definition contractorName_chain :: "step list" where
  "contractorName_chain =
     [Sanitizer trim, Validator (check (isLength 2 100) invalid_value),
      Validator (check name_pattern
        ''Contractor name must contain only letters, spaces, hyphens and apostrophes''),
      Sanitizer escape]"

definition company_chain :: "step list" where
  "company_chain =
     [Sanitizer trim, Validator (check (isLength 2 100) invalid_value), Sanitizer escape]"

definition roofSize_chain :: "step list" where
  "roofSize_chain =
     [Validator (check isNumeric invalid_value),
      Validator (check (isFloat roofSize_options)
        ''Roof size must be between 1 and 1,000,000 square feet'')]"

definition roofType_chain :: "step list" where
  "roofType_chain = [Validator (check (\<lambda>s. s \<in> set validTypes) ''Invalid roof type'')]"

definition projectCity_chain :: "step list" where
  "projectCity_chain =
     [Sanitizer trim,
      Validator (check name_pattern
        ''City name must contain only letters, spaces, hyphens and apostrophes''),
      Sanitizer escape]"

definition projectState_chain :: "step list" where
  "projectState_chain =
     [Sanitizer trim, Validator (check (isLength 2 2) invalid_value),
      Validator (check isUppercase invalid_value),
      Validator (check state_pattern ''Please use 2-letter state code (e.g., CA)''),
      Sanitizer escape]"

definition projectDate_chain :: "platform \<Rightarrow> step list" where
  "projectDate_chain pf =
     [Validator (check (isDate pf) invalid_value), Validator (projectDate_custom pf)]"

definition validateQuote :: "platform \<Rightarrow> (string \<times> step list) list" where
  "validateQuote pf =
     [(''contractorName'', contractorName_chain),
      (''company'', company_chain),
      (''roofSize'', roofSize_chain),
      (''roofType'', roofType_chain),
      (''projectCity'', projectCity_chain),
      (''projectState'', projectState_chain),
      (''projectDate'', projectDate_chain pf)]"

fun run_chains :: "(string \<times> step list) list \<Rightarrow> body \<Rightarrow> validation_error list \<times> body" where
  "run_chains [] b = ([], b)"
| "run_chains ((f, steps) # cs) b =
     (let (es, v) = run_steps f steps (b f);
          (es', b') = run_chains cs (b(f := v))
      in (es @ es', b'))"

text \<open>\<open>validationResult(req).array()\<close> and the request body the chains leave.\<close>

definition validationResult :: "platform \<Rightarrow> body \<Rightarrow> validation_error list" where
  "validationResult pf b = fst (run_chains (validateQuote pf) b)"

definition sanitized_body :: "platform \<Rightarrow> body \<Rightarrow> body" where
  "sanitized_body pf b = snd (run_chains (validateQuote pf) b)"

subsection \<open>middleware/validateRequest.js\<close>

record field_message =
  fm_field :: string
  fm_message :: string

record app_error =
  message :: string
  statusCode :: nat

definition errorMessages :: "validation_error list \<Rightarrow> field_message list" where
  "errorMessages errors = map (\<lambda>e. \<lparr>fm_field = param e, fm_message = msg e\<rparr>) errors"

definition error_text :: "field_message list \<Rightarrow> string" where
  "error_text ms = join ''. '' (map (\<lambda>err. fm_field err @ '': '' @ fm_message err) ms)"

definition validateRequest :: "validation_error list \<Rightarrow> app_error option" where
  "validateRequest errors =
     (if errors \<noteq> [] then Some \<lparr>message = error_text (errorMessages errors), statusCode = 400\<rparr>
      else None)"

subsection \<open>The document Mongoose builds and validates\<close>

text \<open>Per path, the setters run first (\<open>sanitizeString\<close>, then \<open>trim\<close>; \<open>uppercase\<close>), then
  the cast, then the validators in order: the first that fails gives the path's error.\<close>

datatype path_error = ValidatorError string | CastError string

text \<open>The cast of the roof size to a number: on a string the roof size chain has
  passed (a decimal numeral) \<open>Number\<close> gives the value \<open>parseFloat\<close> gives.\<close>

definition castNumber :: "string \<Rightarrow> rat option" where
  "castNumber s = parseFloat s"

definition first_error :: "(bool \<times> path_error) list \<Rightarrow> path_error list" where
  "first_error cs = (case filter (\<lambda>c. \<not> fst c) cs of [] \<Rightarrow> [] | c # r \<Rightarrow> [snd c])"

definition text_setters :: "string \<Rightarrow> string" where
  "text_setters v = trim (sanitize_text v)"

definition document_errors :: "platform \<Rightarrow> body \<Rightarrow> path_error list" where
  "document_errors pf b =
     first_error
       [(text_setters (b ''contractorName'') \<noteq> [], ValidatorError ''Contractor name is required''),
        (2 \<le> length (text_setters (b ''contractorName'')),
           ValidatorError ''Name must be at least 2 characters long''),
        (length (text_setters (b ''contractorName'')) \<le> 100,
           ValidatorError ''Name cannot exceed 100 characters'')] @
     first_error
       [(text_setters (b ''company'') \<noteq> [], ValidatorError ''Company name is required''),
        (2 \<le> length (text_setters (b ''company'')),
           ValidatorError ''Company name must be at least 2 characters long''),
        (length (text_setters (b ''company'')) \<le> 100,
           ValidatorError ''Company name cannot exceed 100 characters'')] @
     first_error
       [(b ''roofSize'' \<noteq> [], ValidatorError ''Roof size is required''),
        (castNumber (b ''roofSize'') \<noteq> None, CastError ''roofSize''),
        (case castNumber (b ''roofSize'') of None \<Rightarrow> True | Some n \<Rightarrow> validateRoofSize n,
           ValidatorError ''Invalid roof size. Must be between 1 and 1,000,000 square feet'')] @
     first_error
       [(b ''roofType'' \<noteq> [], ValidatorError ''Roof type is required''),
        (validateRoofType (JStr (b ''roofType'')),
           ValidatorError ''Invalid roof type. Must be Metal, TPO, Foam, or Other'')] @
     first_error
       [(text_setters (b ''projectCity'') \<noteq> [], ValidatorError ''Project city is required'')] @
     first_error
       [(b ''projectState'' \<noteq> [], ValidatorError ''Project state is required''),
        (validateStateCode (JStr (toUpperCase (b ''projectState''))) = Inr True,
           ValidatorError ''Invalid state code. Must be a 2-letter US state code'')] @
     first_error
       [(b ''projectDate'' \<noteq> [], ValidatorError ''Project date is required''),
        (parseDate pf (b ''projectDate'') \<noteq> None, CastError ''projectDate''),
        (case parseDate pf (b ''projectDate'') of
           None \<Rightarrow> True
         | Some d \<Rightarrow> validateDate (clock_save pf) (addTwoYears pf (clock_save pf)) d,
           ValidatorError ''Project date must be between now and 2 years from now'')]"

text \<open>The document, where it has no error. The identifier is new to the store.\<close>

definition new_quote :: "platform \<Rightarrow> quote list \<Rightarrow> body \<Rightarrow> quote" where
  "new_quote pf store b =
     \<lparr>quote_id = length store,
      contractorName = text_setters (b ''contractorName''),
      company = text_setters (b ''company''),
      roofSize = (case castNumber (b ''roofSize'') of None \<Rightarrow> 0 | Some n \<Rightarrow> n),
      roofType = b ''roofType'',
      projectCity = text_setters (b ''projectCity''),
      projectState = toUpperCase (b ''projectState''),
      projectDate = (case parseDate pf (b ''projectDate'') of None \<Rightarrow> 0 | Some d \<Rightarrow> d),
      createdAt = clock_save pf,
      updatedAt = clock_save pf\<rparr>"

subsection \<open>createQuote and the route POST /api/quotes\<close>

datatype response =
    Created quote
  | InvalidInput "validation_error list"
  | Rejected app_error
  | SaveFailed "path_error list"

definition createQuote :: "platform \<Rightarrow> quote list \<Rightarrow> validation_error list \<Rightarrow> body \<Rightarrow> response \<times> quote list" where
  "createQuote pf store errors b =
     (if errors \<noteq> [] then (InvalidInput errors, store)
      else if document_errors pf b \<noteq> [] then (SaveFailed (document_errors pf b), store)
      else (Created (new_quote pf store b), store @ [new_quote pf store b]))"

text \<open>The route runs \<open>validateQuote\<close>, then \<open>validateRequest\<close>, which passes its error to the
  error handler and so ends the request, then \<open>createQuote\<close>.\<close>

definition post_quotes :: "platform \<Rightarrow> quote list \<Rightarrow> body \<Rightarrow> response \<times> quote list" where
  "post_quotes pf store b =
     (case validateRequest (validationResult pf b) of
        Some err \<Rightarrow> (Rejected err, store)
      | None \<Rightarrow> createQuote pf store (validationResult pf b) (sanitized_body pf b))"

section \<open>Notions the statements use\<close>

text \<open>A field passes its chain when every validator of the chain accepts the value it
  is given, each sanitizer before it applied.\<close>

fun steps_accept :: "step list \<Rightarrow> string \<Rightarrow> bool" where
  "steps_accept [] v = True"
| "steps_accept (Sanitizer s # steps) v = steps_accept steps (s v)"
| "steps_accept (Validator p # steps) v = (p v = None \<and> steps_accept steps v)"

definition field_valid :: "platform \<Rightarrow> body \<Rightarrow> string \<Rightarrow> bool" where
  "field_valid pf b f =
     (case map_of (validateQuote pf) f of None \<Rightarrow> True | Some steps \<Rightarrow> steps_accept steps (b f))"

definition quote_fields :: "string list" where
  "quote_fields =
     [''contractorName'', ''company'', ''roofSize'', ''roofType'', ''projectCity'',
      ''projectState'', ''projectDate'']"

text \<open>The documents page \<open>p\<close> of a listing shows (none when the store refuses the query).\<close>

definition listing_page :: "quote list \<Rightarrow> quotes_request \<Rightarrow> int \<Rightarrow> quote list" where
  "listing_page store rq p =
     (case getQuotes store (rq\<lparr>rq_page := Some p\<rparr>) of Inl e \<Rightarrow> [] | Inr r \<Rightarrow> quotes r)"

section \<open>A sample platform, request body and store\<close>

text \<open>The clock stands at 2 November 2026, 12:00 UTC; the only date the sample platform
  knows is 1 December 2026.\<close>

definition example_platform :: platform where
  "example_platform =
     \<lparr>isDate = (\<lambda>s. s = ''2026-12-01''),
      parseDate = (\<lambda>s. if s = ''2026-12-01'' then Some 1796083200000 else None),
      addTwoYears = (\<lambda>t. t + 63158400000),
      clock_validate = 1793620800000,
      clock_save = 1793620800005\<rparr>"

definition example_render :: render where
  "example_render =
     \<lparr>numberToString = (\<lambda>n. if n = 2500 then ''2500'' else ''0''),
      toLocaleDateString =
        (\<lambda>t. if t = 1796083200000 then ''12/1/2026''
             else if t = 1793620800005 then ''11/2/2026'' else ''1/1/1970'')\<rparr>"

definition example_body :: body where
  "example_body =
     (\<lambda>f. [])(''contractorName'' := ''John Smith'', ''company'' := ''Smith Roofing LLC'',
       ''roofSize'' := ''2500'', ''roofType'' := ''Metal'', ''projectCity'' := ''Austin'',
       ''projectState'' := ''TX'', ''projectDate'' := ''2026-12-01'')"


definition example_quote :: "nat \<Rightarrow> string \<Rightarrow> string \<Rightarrow> int \<Rightarrow> quote" where
  "example_quote i st rt t =
     \<lparr>quote_id = i, contractorName = ''John Smith'', company = ''Smith Roofing LLC'',
      roofSize = 2500, roofType = rt, projectCity = ''Austin'', projectState = st,
      projectDate = 1796083200000, createdAt = t, updatedAt = t\<rparr>"

definition example_store :: "quote list" where
  "example_store =
     [example_quote 0 ''TX'' ''Metal'' 100, example_quote 1 ''CA'' ''TPO'' 200,
      example_quote 2 ''TX'' ''Metal'' 300, example_quote 3 ''TX'' ''Foam'' 400,
      example_quote 4 ''TX'' ''Metal'' 500]"

definition example_request :: quotes_request where
  "example_request =
     \<lparr>rq_state = Some ''tx'', rq_roofType = Some ''Metal'', rq_page = Some 1, rq_limit = Some 2\<rparr>"

section \<open>Letter case\<close>

lemma upper_lower_char: "upper_char (lower_char c) = upper_char c"
  by (auto simp add: upper_char_def lower_char_def is_upper_def is_lower_def code_of_def)

lemma upper_upper_char: "upper_char (upper_char c) = upper_char c"
  by (auto simp add: upper_char_def is_lower_def code_of_def)

lemma toUpperCase_toLowerCase: "toUpperCase (toLowerCase s) = toUpperCase s"
  by (simp add: toUpperCase_def toLowerCase_def upper_lower_char)

lemma toUpperCase_idem: "toUpperCase (toUpperCase s) = toUpperCase s"
  by (simp add: toUpperCase_def upper_upper_char)

lemma case_empty: "toLowerCase s = [] \<longleftrightarrow> s = []" "toUpperCase s = [] \<longleftrightarrow> s = []"
  by (simp_all add: toUpperCase_def toLowerCase_def)

lemma build_query_case: "build_query (Some (toLowerCase s)) rt = build_query (Some (toUpperCase s)) rt"
  by (simp add: build_query_def case_empty toUpperCase_toLowerCase toUpperCase_idem)

lemma build_query_empty:
  "build_query (Some []) rt = build_query None rt" "build_query st (Some []) = build_query st None"
  by (simp_all add: build_query_def)

section \<open>Listing and export read the same documents\<close>

lemma sorted_desc: "sorted_wrt (\<lambda>a b. createdAt a \<ge> createdAt b) (sort_createdAt_desc qs)"
proof -
  have "sorted (map (\<lambda>q. - createdAt q) (sort_key (\<lambda>q. - createdAt q) qs))"
    by (rule sorted_sort_key)
  then show ?thesis
    by (simp add: sort_createdAt_desc_def sorted_wrt_map)
qed

lemma pages_cover:
  assumes "0 < L"
  shows "(\<Union>p\<in>{1..}. set (take L (drop (nat ((p - 1) * int L)) xs))) = set xs" (is "?lhs = ?rhs")
proof
  show "?lhs \<subseteq> ?rhs"
    by (auto dest: in_set_takeD in_set_dropD)
  show "?rhs \<subseteq> ?lhs"
  proof
    fix x assume "x \<in> set xs"
    then obtain i where i: "i < length xs" "xs ! i = x"
      by (auto simp add: in_set_conv_nth)
    define p where "p = int (i div L) + 1"
    define k where "k = (i div L) * L"
    have p1: "p \<in> {1..}" by (simp add: p_def)
    have sk: "nat ((p - 1) * int L) = k"
      by (simp add: p_def k_def nat_mult_distrib)
    have le: "k \<le> i" by (simp add: k_def)
    have lt: "i - k < L"
      unfolding k_def using assms by (metis minus_div_mult_eq_mod mod_less_divisor)
    have "(drop k xs) ! (i - k) = xs ! i"
      using i le by simp
    moreover have "i - k < length (take L (drop k xs))"
      using i le lt by simp
    ultimately have "x \<in> set (take L (drop k xs))"
      using i lt by (metis nth_mem nth_take)
    with p1 sk show "x \<in> ?lhs" by auto
  qed
qed

lemma getQuotes_ok:
  assumes "1 \<le> page_of rq" "1 \<le> limit_of rq"
  shows "getQuotes store rq =
     Inr \<lparr>quotes = take (nat (limit_of rq)) (drop (nat ((page_of rq - 1) * limit_of rq))
                      (export_quotes store (rq_state rq) (rq_roofType rq))),
          pagination =
            \<lparr>currentPage = page_of rq,
             totalPages = Some \<lceil>(of_int (countDocuments store (build_query (rq_state rq) (rq_roofType rq))) :: rat) / of_int (limit_of rq)\<rceil>,
             totalQuotes = countDocuments store (build_query (rq_state rq) (rq_roofType rq)),
             hasMore = (page_of rq * limit_of rq < countDocuments store (build_query (rq_state rq) (rq_roofType rq)))\<rparr>\<rparr>"
proof -
  have "\<not> (page_of rq - 1) * limit_of rq < 0"
    using assms by (simp add: not_less)
  moreover have "limit_of rq \<noteq> 0" "\<bar>limit_of rq\<bar> = limit_of rq"
    using assms by simp_all
  ultimately show ?thesis
    by (simp add: getQuotes_def skip_limit_def export_quotes_def Let_def)
qed

lemma length_export: "int (length (export_quotes store st rt)) = countDocuments store (build_query st rt)"
  by (simp add: export_quotes_def countDocuments_def sort_createdAt_desc_def)

lemma ceiling_pages:
  fixes n l :: int
  assumes "1 \<le> l"
  shows "(\<lceil>(of_int n :: rat) / of_int l\<rceil> - 1) * l < n \<and> n \<le> \<lceil>(of_int n :: rat) / of_int l\<rceil> * l"
proof -
  let ?c = "\<lceil>(of_int n :: rat) / of_int l\<rceil>"
  have lpos: "(0::rat) < of_int l" using assms by simp
  have "(of_int n :: rat) / of_int l \<le> of_int ?c" by (rule le_of_int_ceiling)
  then have "(of_int n :: rat) \<le> of_int ?c * of_int l"
    using pos_divide_le_eq[OF lpos] by blast
  then have up: "n \<le> ?c * l"
    by (metis of_int_le_iff of_int_mult)
  have "of_int ?c - 1 < (of_int n :: rat) / of_int l"
    by linarith
  then have "(of_int ?c - 1) * of_int l < (of_int n :: rat)"
    using pos_less_divide_eq[OF lpos] by blast
  then have "(of_int ((?c - 1) * l) :: rat) < of_int n"
    by simp
  then have lo: "(?c - 1) * l < n"
    by (simp only: of_int_less_iff)
  from up lo show ?thesis by simp
qed

lemma listing_page_slice:
  assumes "1 \<le> p" "1 \<le> limit_of rq"
  shows "listing_page store rq p =
     take (nat (limit_of rq)) (drop (nat ((p - 1) * limit_of rq))
       (export_quotes store (rq_state rq) (rq_roofType rq)))"
proof -
  have "page_of (rq\<lparr>rq_page := Some p\<rparr>) = p" "limit_of (rq\<lparr>rq_page := Some p\<rparr>) = limit_of rq"
    by (simp_all add: page_of_def limit_of_def)
  then show ?thesis
    using assms getQuotes_ok[of "rq\<lparr>rq_page := Some p\<rparr>" store]
    by (simp add: listing_page_def)
qed

lemma sorted_export: "sorted_wrt (\<lambda>a b. createdAt a \<ge> createdAt b) (export_quotes store st rt)"
  by (simp add: export_quotes_def sorted_desc)

lemma listing_page_run:
  "\<exists>i j. listing_page store rq p =
     take j (drop i (export_quotes store (rq_state rq) (rq_roofType rq)))"
proof -
  let ?E = "export_quotes store (rq_state rq) (rq_roofType rq)"
  let ?r = "rq\<lparr>rq_page := Some p\<rparr>"
  let ?k = "nat ((page_of ?r - 1) * limit_of ?r)"
  consider (neg) "(page_of ?r - 1) * limit_of ?r < 0"
    | (all) "\<not> (page_of ?r - 1) * limit_of ?r < 0" "limit_of ?r = 0"
    | (some) "\<not> (page_of ?r - 1) * limit_of ?r < 0" "limit_of ?r \<noteq> 0"
    by blast
  then show ?thesis
  proof cases
    case neg
    then have "listing_page store rq p = take 0 (drop 0 ?E)"
      by (simp add: listing_page_def getQuotes_def skip_limit_def Let_def)
    then show ?thesis by blast
  next
    case all
    then have "listing_page store rq p = drop ?k ?E"
      by (simp add: listing_page_def getQuotes_def skip_limit_def Let_def export_quotes_def)
    then have "listing_page store rq p = take (length ?E) (drop ?k ?E)"
      by simp
    then show ?thesis by blast
  next
    case some
    then have "listing_page store rq p = take (nat \<bar>limit_of ?r\<bar>) (drop ?k ?E)"
      by (simp add: listing_page_def getQuotes_def skip_limit_def Let_def export_quotes_def)
    then show ?thesis by blast
  qed
qed

section \<open>The chains report every failing field\<close>











section \<open>Roof size: where the chain and the model differ\<close>

text \<open>On every string \<open>isNumeric\<close> accepts, the chain and \<open>validateRoofSize\<close> (on the number the
  cast gives) decide alike unless the value is exactly 1000000.\<close>

lemma isNumeric_not_special:
  "\<not> isNumeric []" "\<not> isNumeric ''.''" "\<not> isNumeric '',''" "\<not> isNumeric ''-''" "\<not> isNumeric ''+''"
  by code_simp+

lemma exponent_part_Nil: "exponent_part [] = Some 0"
  by (simp add: exponent_part_def)

lemma isNumeric_parts:
  assumes "isNumeric s"
  shows "\<exists>p. split_float s = Some p \<and> (int_digits p \<noteq> [] \<or> frac_digits p \<noteq> [])"
proof -
  obtain neg r where sr: "strip_sign s = (neg, r)" by (cases "strip_sign s")
  show ?thesis
  proof (cases "dropWhile is_digit r")
    case Nil
    with assms sr have "takeWhile is_digit r \<noteq> []"
      by (simp add: isNumeric_def)
    with Nil sr show ?thesis
      by (simp add: split_float_def exponent_part_Nil Let_def del: dropWhile_eq_Nil_conv)
  next
    case (Cons c fs)
    with assms sr have c: "c = CHR ''.''" and fs: "fs \<noteq> []" "list_all is_digit fs"
      by (simp_all add: isNumeric_def)
    from fs(2) have tw: "takeWhile is_digit fs = fs" "dropWhile is_digit fs = []"
      by (simp_all add: list_all_iff)
    show ?thesis
      using Cons c fs(1) sr
      by (simp add: split_float_def exponent_part_Nil Let_def tw
          del: dropWhile_eq_Nil_conv takeWhile_eq_all_conv)
  qed
qed

lemma isNumeric_parseFloat:
  assumes "isNumeric s"
  shows "\<exists>v. parseFloat s = Some v"
proof -
  from isNumeric_parts[OF assms] obtain p where
    p: "split_float s = Some p" "int_digits p \<noteq> [] \<or> frac_digits p \<noteq> []" by blast
  then show ?thesis
    by (auto simp add: parseFloat_def Let_def)
qed

lemma roofSize_chain_accepts:
  "steps_accept roofSize_chain s \<longleftrightarrow>
     isNumeric s \<and> (\<exists>v. parseFloat s = Some v \<and> 0 < v \<and> v < 1000000)"
proof (cases "isNumeric s")
  case False
  then show ?thesis by (simp add: roofSize_chain_def check_def)
next
  case True
  then obtain v where v: "parseFloat s = Some v" using isNumeric_parseFloat by blast
  from True obtain p where p: "split_float s = Some p" using isNumeric_parts by blast
  from True have ns: "s \<noteq> []" "s \<noteq> ''.''" "s \<noteq> '',''" "s \<noteq> ''-''" "s \<noteq> ''+''"
    using isNumeric_not_special by auto
  have "isFloat roofSize_options s \<longleftrightarrow> 0 < v \<and> v < 1000000"
    using ns v p by (auto simp add: isFloat_def roofSize_options_def bound_ok_def)
  with True v show ?thesis
    by (simp add: roofSize_chain_def check_def)
qed

lemma roofSize_layers_differ_only_at_million:
  assumes "isNumeric s"
  shows "\<exists>v. castNumber s = Some v \<and>
           (steps_accept roofSize_chain s \<longleftrightarrow> validateRoofSize v \<and> v \<noteq> 1000000)"
proof -
  from assms obtain v where v: "parseFloat s = Some v" using isNumeric_parseFloat by blast
  with assms show ?thesis
    by (auto simp add: roofSize_chain_accepts castNumber_def validateRoofSize_def)
qed

section \<open>The claims\<close>

text \<open>
  C1. The claim: for every roof size, the controller's chain for \<open>roofSize\<close> and the model's
  \<open>validateRoofSize\<close> decide alike, and both accept 1,000,000. At 1000000 the chain
  reports its error (\<open>isFloat\<close> reads \<open>lt: 1000000\<close> as a strict bound), while the cast gives
  1000000, \<open>validateRoofSize\<close> accepts it and the document has no error.
\<close>

theorem roofSize_million_chain_rejects_model_accepts:
  "fst (run_steps ''roofSize'' roofSize_chain ''1000000'') =
     [\<lparr>param = ''roofSize'',
       msg = ''Roof size must be between 1 and 1,000,000 square feet''\<rparr>] \<and>
   field_valid example_platform (example_body(''roofSize'' := ''1000000'')) ''roofSize'' = False \<and>
   castNumber ''1000000'' = Some 1000000 \<and>
   validateRoofSize 1000000 \<and>
   document_errors example_platform (example_body(''roofSize'' := ''1000000'')) = []"
  by code_simp



text \<open>
  C3. For every state and roof type filter and every page size of at least 1, the
  documents on the pages 1, 2, 3, ... of the listing are, taken together, exactly the
  documents the CSV export writes: both build their filter with \<open>build_query\<close>.
\<close>

theorem listing_pages_equal_csv_export:
  assumes "1 \<le> limit_of rq"
  shows "(\<Union>p\<in>{1..}. set (listing_page store rq p)) =
         set (export_quotes store (rq_state rq) (rq_roofType rq))"
proof -
  let ?E = "export_quotes store (rq_state rq) (rq_roofType rq)"
  let ?L = "nat (limit_of rq)"
  have pos: "0 < ?L" using assms by simp
  have "(\<Union>p\<in>{1..}. set (listing_page store rq p)) =
        (\<Union>p\<in>{1..}. set (take ?L (drop (nat ((p - 1) * int ?L)) ?E)))"
    using assms by (simp add: listing_page_slice)
  also have "\<dots> = set ?E"
    by (rule pages_cover[OF pos])
  finally show ?thesis .
qed

theorem listing_pages_equal_csv_export_witness:
  "1 \<le> limit_of example_request \<and>
   (\<Union>p\<in>{1..}. set (listing_page example_store example_request p)) =
     set (export_quotes example_store (rq_state example_request) (rq_roofType example_request)) \<and>
   listing_page example_store example_request 1 =
     [example_quote 4 ''TX'' ''Metal'' 500, example_quote 2 ''TX'' ''Metal'' 300] \<and>
   listing_page example_store example_request 2 = [example_quote 0 ''TX'' ''Metal'' 100] \<and>
   export_quotes example_store (Some ''tx'') (Some ''Metal'') =
     [example_quote 4 ''TX'' ''Metal'' 500, example_quote 2 ''TX'' ''Metal'' 300,
      example_quote 0 ''TX'' ''Metal'' 100]"
proof -
  have h: "1 \<le> limit_of example_request" by code_simp
  have p1: "listing_page example_store example_request 1 =
     [example_quote 4 ''TX'' ''Metal'' 500, example_quote 2 ''TX'' ''Metal'' 300]" by code_simp
  have p2: "listing_page example_store example_request 2 = [example_quote 0 ''TX'' ''Metal'' 100]"
    by code_simp
  have e: "export_quotes example_store (Some ''tx'') (Some ''Metal'') =
     [example_quote 4 ''TX'' ''Metal'' 500, example_quote 2 ''TX'' ''Metal'' 300,
      example_quote 0 ''TX'' ''Metal'' 100]" by code_simp
  from listing_pages_equal_csv_export[OF h, of example_store] h p1 p2 e show ?thesis
    by blast
qed

text \<open>
  C4. The claim: a cell whose value holds a comma, a double quote or a line feed is
  written in double quotes, its double quotes doubled. A submission whose company
  name holds a line feed is stored with it, and \<open>exportQuotesCSV\<close> writes the stored
  value as it is, which splits the row; a company \<open>O'Brien, "Pro" Roofing\<close> in the store
  is written as it is too. \<open>formatField\<close> of utils/csvGenerator.js quotes both values as the
  claim says, and the controller does not call it.
\<close>

theorem exportQuotesCSV_writes_cells_unquoted:
  "(let q = (example_quote 0 ''TX'' ''Metal'' 1793620800005)\<lparr>company := ''Acme\<newline>Roofing''\<rparr> in
      post_quotes example_platform [] (example_body(''company'' := ''Acme\<newline>Roofing'')) =
        (Created q, [q]) \<and>
      exportQuotesCSV example_render [q] None None =
        ''Contractor Name,Company,Roof Size (sq ft),Roof Type,Project City,Project State,Project Date,Submission Date\<newline>John Smith,Acme\<newline>Roofing,2500,Metal,Austin,TX,12/1/2026,11/2/2026'' \<and>
      formatField ''Acme\<newline>Roofing'' = ''\"Acme\<newline>Roofing\"'') \<and>
   join '','' (csv_row example_render
      ((example_quote 0 ''TX'' ''Metal'' 1793620800005)\<lparr>company := ''O'Brien, \"Pro\" Roofing''\<rparr>)) =
     ''John Smith,O'Brien, \"Pro\" Roofing,2500,Metal,Austin,TX,12/1/2026,11/2/2026'' \<and>
   formatField ''O'Brien, \"Pro\" Roofing'' = ''\"O'Brien, \"\"Pro\"\" Roofing\"''"
  by code_simp

text \<open>
  C5. For a page of at least 1 and a page size of at least 1 the listing succeeds;
  \<open>totalQuotes\<close> is the number of all documents the filter matches, \<open>totalPages\<close> is the
  ceiling of \<open>totalQuotes / limit\<close> (the least number of pages that hold them all),
  \<open>hasMore\<close> says whether \<open>page * limit < totalQuotes\<close>, and a page beyond \<open>totalPages\<close>
  has no documents and \<open>hasMore\<close> false.
\<close>

theorem pagination_metadata:
  assumes "1 \<le> page_of rq" and "1 \<le> limit_of rq"
  shows "\<exists>r. getQuotes store rq = Inr r \<and>
    totalQuotes (pagination r) = countDocuments store (build_query (rq_state rq) (rq_roofType rq)) \<and>
    totalPages (pagination r) =
      Some \<lceil>(of_int (totalQuotes (pagination r)) :: rat) / of_int (limit_of rq)\<rceil> \<and>
    (\<lceil>(of_int (totalQuotes (pagination r)) :: rat) / of_int (limit_of rq)\<rceil> - 1) * limit_of rq
       < totalQuotes (pagination r) \<and>
    totalQuotes (pagination r)
       \<le> \<lceil>(of_int (totalQuotes (pagination r)) :: rat) / of_int (limit_of rq)\<rceil> * limit_of rq \<and>
    hasMore (pagination r) = (page_of rq * limit_of rq < totalQuotes (pagination r)) \<and>
    (\<lceil>(of_int (totalQuotes (pagination r)) :: rat) / of_int (limit_of rq)\<rceil> < page_of rq \<longrightarrow>
       quotes r = [] \<and> \<not> hasMore (pagination r))"
proof -
  let ?n = "countDocuments store (build_query (rq_state rq) (rq_roofType rq))"
  let ?l = "limit_of rq"
  let ?p = "page_of rq"
  let ?tp = "\<lceil>(of_int ?n :: rat) / of_int ?l\<rceil>"
  let ?E = "export_quotes store (rq_state rq) (rq_roofType rq)"
  note ok = getQuotes_ok[OF assms, of store]
  note cp = ceiling_pages[OF assms(2), of ?n]
  have beyond: "take (nat ?l) (drop (nat ((?p - 1) * ?l)) ?E) = [] \<and> \<not> ?p * ?l < ?n" if "?tp < ?p"
  proof -
    have "?tp \<le> ?p - 1" using that by simp
    then have "?tp * ?l \<le> (?p - 1) * ?l"
      using assms(2) by (simp add: mult_right_mono)
    with cp have a: "?n \<le> (?p - 1) * ?l" by linarith
    have "(?p - 1) * ?l \<le> ?p * ?l"
      using assms(2) by (simp add: mult_right_mono)
    with a have b: "\<not> ?p * ?l < ?n" by linarith
    have "int (length ?E) \<le> (?p - 1) * ?l"
      using a by (simp add: length_export)
    then have "length ?E \<le> nat ((?p - 1) * ?l)" by linarith
    then show ?thesis using b by simp
  qed
  show ?thesis
    using ok cp beyond by simp
qed

theorem pagination_metadata_witness:
  "1 \<le> page_of (example_request\<lparr>rq_page := Some 3\<rparr>) \<and>
   1 \<le> limit_of (example_request\<lparr>rq_page := Some 3\<rparr>) \<and>
   getQuotes example_store (example_request\<lparr>rq_page := Some 3\<rparr>) =
     Inr \<lparr>quotes = [],
          pagination = \<lparr>currentPage = 3, totalPages = Some 2, totalQuotes = 3, hasMore = False\<rparr>\<rparr> \<and>
   getQuotes example_store example_request =
     Inr \<lparr>quotes = [example_quote 4 ''TX'' ''Metal'' 500, example_quote 2 ''TX'' ''Metal'' 300],
          pagination = \<lparr>currentPage = 1, totalPages = Some 2, totalQuotes = 3, hasMore = True\<rparr>\<rparr>"
proof -
  have h1: "1 \<le> page_of (example_request\<lparr>rq_page := Some 3\<rparr>)" by code_simp
  have h2: "1 \<le> limit_of (example_request\<lparr>rq_page := Some 3\<rparr>)" by code_simp
  have g3: "getQuotes example_store (example_request\<lparr>rq_page := Some 3\<rparr>) =
     Inr \<lparr>quotes = [],
          pagination = \<lparr>currentPage = 3, totalPages = Some 2, totalQuotes = 3, hasMore = False\<rparr>\<rparr>"
    by code_simp
  have g1: "getQuotes example_store example_request =
     Inr \<lparr>quotes = [example_quote 4 ''TX'' ''Metal'' 500, example_quote 2 ''TX'' ''Metal'' 300],
          pagination = \<lparr>currentPage = 1, totalPages = Some 2, totalQuotes = 3, hasMore = True\<rparr>\<rparr>"
    by code_simp
  from pagination_metadata[OF h1 h2, of example_store] h1 h2 g3 g1 show ?thesis
    by blast
qed

text \<open>
  C6. For every store and every string \<open>s\<close>, the listing (and the export) filtered by
  \<open>s\<close> in lower case and by \<open>s\<close> in upper case give the same result, and
  \<open>validateStateCode\<close> decides \<open>s\<close>, its lower case and its upper case alike.
\<close>

theorem state_filter_ignores_case:
  "getQuotes store (rq\<lparr>rq_state := Some (toLowerCase s)\<rparr>) =
     getQuotes store (rq\<lparr>rq_state := Some (toUpperCase s)\<rparr>) \<and>
   export_quotes store (Some (toLowerCase s)) rt = export_quotes store (Some (toUpperCase s)) rt \<and>
   validateStateCode (JStr (toLowerCase s)) = validateStateCode (JStr s) \<and>
   validateStateCode (JStr (toUpperCase s)) = validateStateCode (JStr s)"
  by (simp add: getQuotes_def export_quotes_def build_query_case page_of_def limit_of_def
      toUpperCase_toLowerCase toUpperCase_idem)

theorem state_filter_ignores_case_witness:
  "validateStateCode (JStr ''ca'') = Inr True \<and>
   validateStateCode (JStr ''CA'') = Inr True \<and>
   getQuotes example_store (example_request\<lparr>rq_state := Some ''ca''\<rparr>) =
     getQuotes example_store (example_request\<lparr>rq_state := Some ''CA''\<rparr>)"
proof -
  have l: "toLowerCase ''Ca'' = ''ca''" and u: "toUpperCase ''Ca'' = ''CA''"
    by code_simp+
  have v: "validateStateCode (JStr ''CA'') = Inr True"
    by code_simp
  from state_filter_ignores_case[where store = example_store and rq = example_request and s = "''Ca''"] v
  show ?thesis
    unfolding l u by simp
qed

text \<open>
  C7. The claim: where every field passes its chain, the stored values are the
  sanitized input values, and an apostrophe in a valid name is stored unchanged. The
  contractor name \<open>O'Brien\<close> passes every chain and \<open>sanitizeString\<close> alone would keep it,
  but the chain's \<open>escape\<close> turns the apostrophe into \<open>&#x27;\<close> before the model's setter
  strips \<open>&\<close>, \<open>#\<close> and \<open>;\<close>: the quote is stored under the name \<open>Ox27Brien\<close>.
\<close>

theorem apostrophe_is_stored_as_x27:
  "(let b = example_body(''contractorName'' := ''O'Brien'');
        q = (example_quote 0 ''TX'' ''Metal'' 1793620800005)\<lparr>contractorName := ''Ox27Brien''\<rparr>
    in list_all (field_valid example_platform b) quote_fields \<and>
       sanitizeString (JStr (b ''contractorName'')) = JStr ''O'Brien'' \<and>
       sanitized_body example_platform b ''contractorName'' = ''O&#x27;Brien'' \<and>
       post_quotes example_platform [] b = (Created q, [q]))"
  by code_simp

text \<open>
  C8. The claim: every validator returns a boolean on every input and never throws.
  \<open>validateStateCode\<close> throws a TypeError on \<open>null\<close>, on \<open>undefined\<close> and on a number, where
  \<open>isValidDateFormat\<close>, which checks the type first, returns false.
\<close>

theorem validateStateCode_throws_on_non_strings:
  "validateStateCode JNull = Inl TypeError \<and>
   validateStateCode JUndefined = Inl TypeError \<and>
   validateStateCode (JNum 12) = Inl TypeError \<and>
   isValidDateFormat JNull = False \<and> isValidDateFormat (JNum 12) = False"
  by simp

text \<open>
  C9. For every store, an empty \<open>state\<close> or \<open>roofType\<close> parameter gives the listing and the
  CSV export the result its absence gives, and with both empty every document matches.
\<close>

theorem empty_filter_is_absent_filter:
  "getQuotes store (rq\<lparr>rq_state := Some []\<rparr>) = getQuotes store (rq\<lparr>rq_state := None\<rparr>) \<and>
   getQuotes store (rq\<lparr>rq_roofType := Some []\<rparr>) = getQuotes store (rq\<lparr>rq_roofType := None\<rparr>) \<and>
   exportQuotesCSV rn store (Some []) rt = exportQuotesCSV rn store None rt \<and>
   exportQuotesCSV rn store st (Some []) = exportQuotesCSV rn store st None \<and>
   find_quotes store (build_query (Some []) (Some [])) = store"
  by (simp add: getQuotes_def exportQuotesCSV_def csvRows_def export_quotes_def build_query_empty
      page_of_def limit_of_def find_quotes_def matches_query_def build_query_def)

theorem empty_filter_is_absent_filter_witness:
  "map quote_id (listing_page example_store (example_request\<lparr>rq_state := Some []\<rparr>) 1) = [4, 2] \<and>
   listing_page example_store (example_request\<lparr>rq_state := Some []\<rparr>) 1 =
     listing_page example_store (example_request\<lparr>rq_state := None\<rparr>) 1"
proof -
  have e: "map quote_id (listing_page example_store (example_request\<lparr>rq_state := Some []\<rparr>) 1) = [4, 2]"
    by code_simp
  have "getQuotes example_store (example_request\<lparr>rq_state := Some [], rq_page := Some 1\<rparr>) =
        getQuotes example_store (example_request\<lparr>rq_state := None, rq_page := Some 1\<rparr>)"
    using empty_filter_is_absent_filter[where store = example_store
        and rq = "example_request\<lparr>rq_page := Some 1\<rparr>"]
    by (simp add: example_request_def)
  then have "listing_page example_store (example_request\<lparr>rq_state := Some []\<rparr>) 1 =
     listing_page example_store (example_request\<lparr>rq_state := None\<rparr>) 1"
    by (simp add: listing_page_def)
  with e show ?thesis by simp
qed

text \<open>
  C10. For every filter, the rows the CSV export writes after its header are the rows of
  the matching documents from the newest to the oldest, and every page of the listing is
  a run of consecutive documents of that same sequence.
\<close>

theorem csv_rows_newest_first:
  "tl (csvRows rn store st rt) = map (csv_row rn) (export_quotes store st rt) \<and>
   sorted_wrt (\<lambda>a b. createdAt a \<ge> createdAt b) (export_quotes store st rt) \<and>
   (\<exists>i j. listing_page store rq p =
      take j (drop i (export_quotes store (rq_state rq) (rq_roofType rq))))"
  by (simp add: csvRows_def sorted_export listing_page_run)

theorem csv_rows_newest_first_witness:
  "map createdAt (export_quotes example_store (Some ''tx'') (Some ''Metal'')) = [500, 300, 100] \<and>
   sorted_wrt (\<lambda>a b. createdAt a \<ge> createdAt b)
     (export_quotes example_store (Some ''tx'') (Some ''Metal'')) \<and>
   tl (csvRows example_render example_store (Some ''tx'') (Some ''Metal'')) =
     map (csv_row example_render) (export_quotes example_store (Some ''tx'') (Some ''Metal'')) \<and>
   map createdAt (listing_page example_store example_request 1) = [500, 300] \<and>
   map createdAt (listing_page example_store example_request 2) = [100]"
proof -
  have e: "map createdAt (export_quotes example_store (Some ''tx'') (Some ''Metal'')) = [500, 300, 100]"
    by code_simp
  have l1: "map createdAt (listing_page example_store example_request 1) = [500, 300]"
    by code_simp
  have l2: "map createdAt (listing_page example_store example_request 2) = [100]"
    by code_simp
  from csv_rows_newest_first[of example_render example_store "Some ''tx''" "Some ''Metal''"] e l1 l2
  show ?thesis
    by blast
qed

end
